theory Spec2Isabelle
  imports Complex_Main "HOL-Library.Word" "HOL-Library.Sublist"
begin

section \<open>grpcurl command: a shallow embedding of cmd/grpcurl/grpcurl.go\<close>

text \<open>
  The Go functions of \<^verbatim>\<open>cmd/grpcurl/grpcurl.go\<close> are translated into HOL functions.
  A Go result pair \<^verbatim>\<open>(value, error)\<close> is a sum \<open>error + value\<close> with \<open>Inl\<close> for a
  non-nil error; Go strings are byte strings, HOL's \<open>string\<close>; a call of \<^verbatim>\<open>fail\<close>
  (which ends the process through \<^verbatim>\<open>exit\<close>) is a \<open>failure\<close> value that stops the
  rest of the function.
\<close>

subsection \<open>Errors and descriptors\<close>

text \<open>\<^verbatim>\<open>status.Status\<close>: a numeric code (\<^verbatim>\<open>codes.Code\<close> is a uint32) and a message.\<close>

record Status =
  Code :: "32 word"
  Message :: string

text \<open>
  A Go \<^verbatim>\<open>error\<close>: either one that carries a gRPC status (it implements
  \<^verbatim>\<open>GRPCStatus()\<close>) or any other error, with its text.
\<close>

datatype error = GRPCStatusError "32 word" string | PlainError string

text \<open>
  \<^verbatim>\<open>desc.FieldDescriptor\<close>, as far as the command reads it: the field's tag number
  (an int32) and its name.
\<close>

record FieldDescriptor =
  GetNumber :: "32 word"
  GetFullyQualifiedName :: string

text \<open>
  The interface \<^verbatim>\<open>grpcurl.DescriptorSource\<close>: three methods. A method that takes no
  argument is the result of its one call. The type \<open>'d\<close> is \<^verbatim>\<open>desc.Descriptor\<close>.
\<close>

record 'd DescriptorSource =
  ListServices :: "error + string list"
  FindSymbol :: "string \<Rightarrow> error + 'd"
  AllExtensionsForType :: "string \<Rightarrow> error + FieldDescriptor list"

subsection \<open>compositeSource\<close>

text \<open>
  The struct's two fields. The Go field \<^verbatim>\<open>file\<close> is named \<open>file_source\<close> here
  (\<open>file\<close> is a reserved word of the theory language).
\<close>

record 'd compositeSource =
  reflection :: "'d DescriptorSource"
  file_source :: "'d DescriptorSource"

definition compositeSource_ListServices :: "'d compositeSource \<Rightarrow> error + string list" where
  "compositeSource_ListServices cs = ListServices (reflection cs)"

definition compositeSource_FindSymbol :: "'d compositeSource \<Rightarrow> string \<Rightarrow> error + 'd" where
  "compositeSource_FindSymbol cs fullyQualifiedName =
     (case FindSymbol (reflection cs) fullyQualifiedName of
        Inr d \<Rightarrow> Inr d
      | Inl err \<Rightarrow> FindSymbol (file_source cs) fullyQualifiedName)"

text \<open>
  The first loop of \<^verbatim>\<open>AllExtensionsForType\<close>: \<^verbatim>\<open>tags[ext.GetNumber()] = true\<close> for each
  reflection extension. The Go map \<^verbatim>\<open>map[int32]bool\<close> reads \<^verbatim>\<open>false\<close> at a missing key, so
  it is a total function into \<open>bool\<close>.
\<close>

fun track_tags :: "FieldDescriptor list \<Rightarrow> (32 word \<Rightarrow> bool) \<Rightarrow> (32 word \<Rightarrow> bool)" where
  "track_tags [] tags = tags"
| "track_tags (ext # exts) tags = track_tags exts (tags(GetNumber ext := True))"

text \<open>
  The second loop: \<^verbatim>\<open>if !tags[ext.GetNumber()] { exts = append(exts, ext) }\<close> for each
  extension of the file source. The map is not updated in this loop.
\<close>

fun append_untracked ::
  "(32 word \<Rightarrow> bool) \<Rightarrow> FieldDescriptor list \<Rightarrow> FieldDescriptor list \<Rightarrow> FieldDescriptor list" where
  "append_untracked tags [] exts = exts"
| "append_untracked tags (ext # fileExts) exts =
     (if \<not> tags (GetNumber ext) then append_untracked tags fileExts (exts @ [ext])
      else append_untracked tags fileExts exts)"

definition compositeSource_AllExtensionsForType ::
  "'d compositeSource \<Rightarrow> string \<Rightarrow> error + FieldDescriptor list" where
  "compositeSource_AllExtensionsForType cs typeName =
     (case AllExtensionsForType (reflection cs) typeName of
        Inl err \<Rightarrow> AllExtensionsForType (file_source cs) typeName
      | Inr exts \<Rightarrow>
          (let tags = track_tags exts (\<lambda>_. False) in
           case AllExtensionsForType (file_source cs) typeName of
             Inl err \<Rightarrow> Inr exts
           | Inr fileExts \<Rightarrow> Inr (append_untracked tags fileExts exts)))"

subsection \<open>The Go standard library's net/url, as parseTarget uses it\<close>

text \<open>
  \<^verbatim>\<open>parseTarget\<close> calls \<^verbatim>\<open>url.Parse\<close>, \<^verbatim>\<open>(*URL).Hostname\<close> and \<^verbatim>\<open>(*URL).Port\<close> of Go's
  standard library. That package is not part of the repository; the functions below follow
  the library's source (\<^verbatim>\<open>net/url/url.go\<close>), function by function and under the library's
  names, for the fields that \<^verbatim>\<open>parseTarget\<close> reads: \<^verbatim>\<open>Scheme\<close>, \<^verbatim>\<open>Host\<close>, \<^verbatim>\<open>Path\<close>,
  \<^verbatim>\<open>RawQuery\<close> and \<^verbatim>\<open>Fragment\<close> (and \<^verbatim>\<open>Opaque\<close>). The user information, \<^verbatim>\<open>RawPath\<close>,
  \<^verbatim>\<open>RawFragment\<close>, \<^verbatim>\<open>ForceQuery\<close> and \<^verbatim>\<open>OmitHost\<close> are checked where the library checks
  them and not stored. The library wraps an error of \<^verbatim>\<open>parse\<close> in a \<^verbatim>\<open>url.Error\<close>; the model
  keeps the inner message.
\<close>

record URL =
  Scheme :: string
  Opaque :: string
  Host :: string
  Path :: string
  RawQuery :: string
  Fragment :: string

definition byte :: "char \<Rightarrow> nat" where
  "byte c = of_char c"

definition is_lower :: "char \<Rightarrow> bool" where
  "is_lower c = (byte CHR ''a'' \<le> byte c \<and> byte c \<le> byte CHR ''z'')"

definition is_upper :: "char \<Rightarrow> bool" where
  "is_upper c = (byte CHR ''A'' \<le> byte c \<and> byte c \<le> byte CHR ''Z'')"

definition is_digit :: "char \<Rightarrow> bool" where
  "is_digit c = (byte CHR ''0'' \<le> byte c \<and> byte c \<le> byte CHR ''9'')"

text \<open>\<^verbatim>\<open>strings.HasPrefix\<close>, \<^verbatim>\<open>strings.HasSuffix\<close>, \<^verbatim>\<open>strings.Cut\<close> at a one-byte separator.\<close>

definition HasPrefix :: "string \<Rightarrow> string \<Rightarrow> bool" where
  "HasPrefix s pre = (take (length pre) s = pre)"

definition HasSuffix :: "string \<Rightarrow> string \<Rightarrow> bool" where
  "HasSuffix s suf = (length suf \<le> length s \<and> drop (length s - length suf) s = suf)"

definition Cut :: "string \<Rightarrow> char \<Rightarrow> string \<times> string" where
  "Cut s sep = (takeWhile (\<lambda>c. c \<noteq> sep) s, drop 1 (dropWhile (\<lambda>c. c \<noteq> sep) s))"

text \<open>
  \<^verbatim>\<open>strings.LastIndexByte\<close> as a split: \<open>None\<close> when the byte does not occur, else the text
  before the last occurrence and the text from it on (the byte included).
\<close>

fun split_last :: "char \<Rightarrow> string \<Rightarrow> (string \<times> string) option" where
  "split_last sep [] = None"
| "split_last sep (c # cs) =
     (case split_last sep cs of
        Some (front, back) \<Rightarrow> Some (c # front, back)
      | None \<Rightarrow> if c = sep then Some ([], c # cs) else None)"

text \<open>\<^verbatim>\<open>strings.ToLower\<close> on the bytes of a scheme, which are ASCII letters, digits, +, - and .\<close>

definition ToLower :: "string \<Rightarrow> string" where
  "ToLower s = map (\<lambda>c. if is_upper c then char_of (byte c + 32) else c) s"

definition stringContainsCTLByte :: "string \<Rightarrow> bool" where
  "stringContainsCTLByte s = (\<exists>c \<in> set s. byte c < 32 \<or> byte c = 127)"

text \<open>
  \<^verbatim>\<open>getScheme\<close>: the loop over the bytes of \<^verbatim>\<open>rawURL\<close>; \<open>pre\<close> is \<^verbatim>\<open>rawURL[:i]\<close>, the third
  argument \<^verbatim>\<open>rawURL[i:]\<close>.
\<close>

fun getScheme_loop :: "string \<Rightarrow> string \<Rightarrow> string \<Rightarrow> error + (string \<times> string)" where
  "getScheme_loop rawURL pre [] = Inr ([], rawURL)"
| "getScheme_loop rawURL pre (c # cs) =
     (if is_lower c \<or> is_upper c then getScheme_loop rawURL (pre @ [c]) cs
      else if is_digit c \<or> c = CHR ''+'' \<or> c = CHR ''-'' \<or> c = CHR ''.'' then
        (if pre = [] then Inr ([], rawURL) else getScheme_loop rawURL (pre @ [c]) cs)
      else if c = CHR '':'' then
        (if pre = [] then Inl (PlainError ''missing protocol scheme'') else Inr (pre, cs))
      else Inr ([], rawURL))"

definition getScheme :: "string \<Rightarrow> error + (string \<times> string)" where
  "getScheme rawURL = getScheme_loop rawURL [] rawURL"

datatype encoding =
  encodePath | encodePathSegment | encodeHost | encodeZone | encodeUserPassword
  | encodeQueryComponent | encodeFragment

definition shouldEscape :: "char \<Rightarrow> encoding \<Rightarrow> bool" where
  "shouldEscape c mode =
     (if is_lower c \<or> is_upper c \<or> is_digit c then False
      else if (mode = encodeHost \<or> mode = encodeZone) \<and> c \<in> set ''!$&'' \<union> {CHR 0x27} \<union> set ''()*+,;=:[]<>'' \<union> {CHR 0x22}
        then False
      else if c \<in> set ''-_.~'' then False
      else if c \<in> set ''$&+,/:;=?@'' \<and> mode = encodePath then c = CHR ''?''
      else if c \<in> set ''$&+,/:;=?@'' \<and> mode = encodePathSegment
        then c = CHR ''/'' \<or> c = CHR '';'' \<or> c = CHR '','' \<or> c = CHR ''?''
      else if c \<in> set ''$&+,/:;=?@'' \<and> mode = encodeUserPassword
        then c = CHR ''@'' \<or> c = CHR ''/'' \<or> c = CHR ''?'' \<or> c = CHR '':''
      else if c \<in> set ''$&+,/:;=?@'' \<and> mode = encodeQueryComponent then True
      else if c \<in> set ''$&+,/:;=?@'' \<and> mode = encodeFragment then False
      else if mode = encodeFragment \<and> c \<in> set ''!()*'' then False
      else True)"

definition ishex :: "char \<Rightarrow> bool" where
  "ishex c = (is_digit c \<or> (byte CHR ''a'' \<le> byte c \<and> byte c \<le> byte CHR ''f'')
     \<or> (byte CHR ''A'' \<le> byte c \<and> byte c \<le> byte CHR ''F''))"

definition unhex :: "char \<Rightarrow> nat" where
  "unhex c =
     (if is_digit c then byte c - byte CHR ''0''
      else if byte CHR ''a'' \<le> byte c \<and> byte c \<le> byte CHR ''f'' then byte c - byte CHR ''a'' + 10
      else if byte CHR ''A'' \<le> byte c \<and> byte c \<le> byte CHR ''F'' then byte c - byte CHR ''A'' + 10
      else 0)"

text \<open>
  \<^verbatim>\<open>unescape\<close>, first loop: the checks. \<open>None\<close> when every escape is well formed and allowed
  in the mode.
\<close>

fun unescape_check :: "encoding \<Rightarrow> string \<Rightarrow> error option" where
  "unescape_check mode [] = None"
| "unescape_check mode (c # cs) =
     (if c = CHR ''%'' then
        (case cs of
           h1 # h2 # rest \<Rightarrow>
             if \<not> ishex h1 \<or> \<not> ishex h2 then Some (PlainError (''invalid URL escape '' @ [c, h1, h2]))
             else if mode = encodeHost \<and> unhex h1 < 8 \<and> [c, h1, h2] \<noteq> ''%25''
               then Some (PlainError (''invalid URL escape '' @ [c, h1, h2]))
             else if mode = encodeZone \<and> [c, h1, h2] \<noteq> ''%25''
                 \<and> char_of (unhex h1 * 16 + unhex h2) \<noteq> CHR '' ''
                 \<and> shouldEscape (char_of (unhex h1 * 16 + unhex h2)) encodeHost
               then Some (PlainError (''invalid URL escape '' @ [c, h1, h2]))
             else unescape_check mode rest
         | _ \<Rightarrow> Some (PlainError (''invalid URL escape '' @ c # cs)))
      else if c = CHR ''+'' then unescape_check mode cs
      else if (mode = encodeHost \<or> mode = encodeZone) \<and> byte c < 128 \<and> shouldEscape c encodeHost
        then Some (PlainError (''invalid character in host name '' @ [c]))
      else unescape_check mode cs)"

text \<open>
  \<^verbatim>\<open>unescape\<close>, second loop: the decoded bytes. (With no escape and no plus sign the library
  returns the string itself, which is what this loop computes then.)
\<close>

fun unescape_build :: "encoding \<Rightarrow> string \<Rightarrow> string" where
  "unescape_build mode [] = []"
| "unescape_build mode (c # cs) =
     (if c = CHR ''%'' then
        (case cs of
           h1 # h2 # rest \<Rightarrow> char_of (unhex h1 * 16 + unhex h2) # unescape_build mode rest
         | _ \<Rightarrow> [])
      else if c = CHR ''+'' then
        (if mode = encodeQueryComponent then CHR '' '' else CHR ''+'') # unescape_build mode cs
      else c # unescape_build mode cs)"

definition unescape :: "string \<Rightarrow> encoding \<Rightarrow> error + string" where
  "unescape s mode =
     (case unescape_check mode s of
        Some err \<Rightarrow> Inl err
      | None \<Rightarrow> Inr (unescape_build mode s))"

definition validOptionalPort :: "string \<Rightarrow> bool" where
  "validOptionalPort port =
     (case port of
        [] \<Rightarrow> True
      | c # cs \<Rightarrow> c = CHR '':'' \<and> list_all is_digit cs)"

text \<open>
  \<^verbatim>\<open>strings.Index(s, sub)\<close> as a split: \<open>None\<close> when \<open>sub\<close> does not occur, else the text
  before its first occurrence and the text from it on.
\<close>

fun split_first :: "string \<Rightarrow> string \<Rightarrow> (string \<times> string) option" where
  "split_first sub [] = (if sub = [] then Some ([], []) else None)"
| "split_first sub (c # cs) =
     (if HasPrefix (c # cs) sub then Some ([], c # cs)
      else case split_first sub cs of
             Some (front, back) \<Rightarrow> Some (c # front, back)
           | None \<Rightarrow> None)"

definition parseHost :: "string \<Rightarrow> error + string" where
  "parseHost host =
     (if HasPrefix host ''['' then
        (case split_last CHR '']'' host of
           None \<Rightarrow> Inl (PlainError ''missing ']' in host'')
         | Some (front, back) \<Rightarrow>
             if \<not> validOptionalPort (drop 1 back)
               then Inl (PlainError (''invalid port after host '' @ drop 1 back))
             else
               (case split_first ''%25'' front of
                  Some (h1, h2) \<Rightarrow>
                    (case unescape h1 encodeHost of
                       Inl err \<Rightarrow> Inl err
                     | Inr host1 \<Rightarrow>
                         (case unescape h2 encodeZone of
                            Inl err \<Rightarrow> Inl err
                          | Inr host2 \<Rightarrow>
                              (case unescape back encodeHost of
                                 Inl err \<Rightarrow> Inl err
                               | Inr host3 \<Rightarrow> Inr (host1 @ host2 @ host3))))
                | None \<Rightarrow> unescape host encodeHost))
      else
        (case split_last CHR '':'' host of
           Some (front, colonPort) \<Rightarrow>
             if \<not> validOptionalPort colonPort
               then Inl (PlainError (''invalid port after host '' @ colonPort))
             else unescape host encodeHost
         | None \<Rightarrow> unescape host encodeHost))"

definition validUserinfo :: "string \<Rightarrow> bool" where
  "validUserinfo s =
     list_all (\<lambda>r. is_upper r \<or> is_lower r \<or> is_digit r
        \<or> r \<in> set ''-._:~!$&'' \<union> {CHR 0x27} \<union> set ''()*+,;=%@'') s"

text \<open>\<^verbatim>\<open>parseAuthority\<close>: the host of the result; the user information is checked only.\<close>

definition parseAuthority :: "string \<Rightarrow> error + string" where
  "parseAuthority authority =
     (case split_last CHR ''@'' authority of
        None \<Rightarrow> parseHost authority
      | Some (userinfo, back) \<Rightarrow>
          (case parseHost (drop 1 back) of
             Inl err \<Rightarrow> Inl err
           | Inr host \<Rightarrow>
               if \<not> validUserinfo userinfo then Inl (PlainError ''net/url: invalid userinfo'')
               else if CHR '':'' \<notin> set userinfo then
                 (case unescape userinfo encodeUserPassword of
                    Inl err \<Rightarrow> Inl err
                  | Inr _ \<Rightarrow> Inr host)
               else
                 (case unescape (fst (Cut userinfo CHR '':'')) encodeUserPassword of
                    Inl err \<Rightarrow> Inl err
                  | Inr _ \<Rightarrow>
                      (case unescape (snd (Cut userinfo CHR '':'')) encodeUserPassword of
                         Inl err \<Rightarrow> Inl err
                       | Inr _ \<Rightarrow> Inr host))))"

definition setPath :: "URL \<Rightarrow> string \<Rightarrow> error + URL" where
  "setPath u p =
     (case unescape p encodePath of
        Inl err \<Rightarrow> Inl err
      | Inr path' \<Rightarrow> Inr (u\<lparr>Path := path'\<rparr>))"

definition setFragment :: "URL \<Rightarrow> string \<Rightarrow> error + URL" where
  "setFragment u f =
     (case unescape f encodeFragment of
        Inl err \<Rightarrow> Inl err
      | Inr frag \<Rightarrow> Inr (u\<lparr>Fragment := frag\<rparr>))"

text \<open>
  \<^verbatim>\<open>parse(rawURL, viaRequest)\<close> with \<^verbatim>\<open>viaRequest = false\<close>, in two parts: \<open>parse\<close> up to
  the scheme, \<open>parse_rest\<close> from the query on, with the lower-cased scheme and the rest of
  the text.
\<close>

definition parse_rest :: "string \<Rightarrow> string \<Rightarrow> error + URL" where
  "parse_rest scheme' rest0 =
     (let (rest, rawQuery) =
            (if HasSuffix rest0 ''?'' \<and> count_list rest0 CHR ''?'' = 1 then (butlast rest0, [])
             else Cut rest0 CHR ''?'');
          url = \<lparr>Scheme = scheme', Opaque = [], Host = [], Path = [], RawQuery = rawQuery,
                 Fragment = []\<rparr>
      in if \<not> HasPrefix rest ''/'' \<and> scheme' \<noteq> [] then Inr (url\<lparr>Opaque := rest\<rparr>)
         else if \<not> HasPrefix rest ''/'' \<and> CHR '':'' \<in> set (fst (Cut rest CHR ''/''))
           then Inl (PlainError ''first path segment in URL cannot contain colon'')
         else if (scheme' \<noteq> [] \<or> \<not> HasPrefix rest ''///'') \<and> HasPrefix rest ''//'' then
           (case parseAuthority (takeWhile (\<lambda>c. c \<noteq> CHR ''/'') (drop 2 rest)) of
              Inl err \<Rightarrow> Inl err
            | Inr host' \<Rightarrow>
                setPath (url\<lparr>Host := host'\<rparr>) (dropWhile (\<lambda>c. c \<noteq> CHR ''/'') (drop 2 rest)))
         else setPath url rest)"

definition parse :: "string \<Rightarrow> error + URL" where
  "parse rawURL =
     (if stringContainsCTLByte rawURL
        then Inl (PlainError ''net/url: invalid control character in URL'')
      else if rawURL = ''*''
        then Inr \<lparr>Scheme = [], Opaque = [], Host = [], Path = ''*'', RawQuery = [], Fragment = []\<rparr>
      else
        (case getScheme rawURL of
           Inl err \<Rightarrow> Inl err
         | Inr (sch, rest) \<Rightarrow> parse_rest (ToLower sch) rest))"

text \<open>\<^verbatim>\<open>url.Parse\<close>.\<close>

definition url_Parse :: "string \<Rightarrow> error + URL" where
  "url_Parse rawURL =
     (case parse (fst (Cut rawURL CHR ''#'')) of
        Inl err \<Rightarrow> Inl err
      | Inr url \<Rightarrow>
          if snd (Cut rawURL CHR ''#'') = [] then Inr url
          else setFragment url (snd (Cut rawURL CHR ''#'')))"

text \<open>\<^verbatim>\<open>splitHostPort\<close>, \<^verbatim>\<open>(*URL).Hostname\<close> and \<^verbatim>\<open>(*URL).Port\<close>.\<close>

definition splitHostPort :: "string \<Rightarrow> string \<times> string" where
  "splitHostPort hostPort =
     (let (host', port') =
            (case split_last CHR '':'' hostPort of
               Some (front, back) \<Rightarrow>
                 if validOptionalPort back then (front, drop 1 back) else (hostPort, [])
             | None \<Rightarrow> (hostPort, []))
      in (if HasPrefix host' ''['' \<and> HasSuffix host' '']'' then butlast (drop 1 host') else host',
          port'))"

definition Hostname :: "URL \<Rightarrow> string" where
  "Hostname u = fst (splitHostPort (Host u))"

definition Port :: "URL \<Rightarrow> string" where
  "Port u = snd (splitHostPort (Host u))"

subsection \<open>parseTarget\<close>

record parsedTarget =
  address :: string
  scheme :: string
  host :: string
  port :: string
  path :: string
  useTLS :: bool
  wasURL :: bool

text \<open>The result that five of the branches of \<^verbatim>\<open>parseTarget\<close> build: the target as it is.\<close>

definition opaque_target :: "string \<Rightarrow> string \<Rightarrow> parsedTarget" where
  "opaque_target target sch =
     \<lparr>address = target, scheme = sch, host = target, port = [], path = [],
      useTLS = False, wasURL = False\<rparr>"

definition parseTarget :: "string \<Rightarrow> error + parsedTarget" where
  "parseTarget target =
     (if HasPrefix target ''unix://'' \<or> HasPrefix target ''xds:///''
        then Inr (opaque_target target [])
      else
        (case url_Parse target of
           Inl err \<Rightarrow> Inr (opaque_target target [])
         | Inr parsed \<Rightarrow>
             if Scheme parsed \<noteq> [] \<and> Scheme parsed \<noteq> ''http'' \<and> Scheme parsed \<noteq> ''https'' then
               (if Host parsed = [] \<and> Path parsed = [] \<and> RawQuery parsed = []
                     \<and> Fragment parsed = []
                  then Inr (opaque_target target [])
                else Inr (opaque_target target (Scheme parsed)))
             else if Scheme parsed = [] then Inr (opaque_target target [])
             else if Scheme parsed = ''http'' \<or> Scheme parsed = ''https'' then
               (let host' = Hostname parsed;
                    port' = (if Port parsed = []
                             then (if Scheme parsed = ''https'' then ''443'' else ''80'')
                             else Port parsed);
                    address' = host' @ '':'' @ port'
                in Inr \<lparr>address = address', scheme = Scheme parsed, host = host', port = port',
                        path = Path parsed, useTLS = (Scheme parsed = ''https''),
                        wasURL = True\<rparr>)
             else Inr (opaque_target target [])))"

subsection \<open>main: flags, failures\<close>

text \<open>
  The package-level flag variables that the modelled parts of \<^verbatim>\<open>main\<close> read, under their Go
  names. A \<^verbatim>\<open>float64\<close> flag is only compared with 0 there (and handed on as a duration), so
  it is a \<open>real\<close>: a NaN, which compares like 0, is not represented. \<^verbatim>\<open>maxMsgSz\<close> is a Go
  \<^verbatim>\<open>int\<close>.
\<close>

record flags =
  plaintext :: bool
  insecure :: bool
  cacert :: string
  cert :: string
  key :: string
  usealts :: bool
  altsHandshakerServiceAddress :: string
  altsTargetServiceAccounts :: "string list"
  authority :: string
  userAgent :: string
  format :: string
  connectTimeout :: real
  formatError :: bool
  keepaliveTime :: real
  maxTime :: real
  maxMsgSz :: int
  emitDefaults :: bool
  serverName :: string

text \<open>The flags' default values, as the declarations of the flag variables give them.\<close>

definition default_flags :: flags where
  "default_flags =
     \<lparr>plaintext = False, insecure = False, cacert = [], cert = [], key = [], usealts = False,
      altsHandshakerServiceAddress = [], altsTargetServiceAccounts = [], authority = [],
      userAgent = [], format = ''json'', connectTimeout = 0, formatError = False,
      keepaliveTime = 0, maxTime = 0, maxMsgSz = 0, emitDefaults = False, serverName = []\<rparr>"

text \<open>
  How the process ends early: \<open>Exit code line\<close> is a call of \<^verbatim>\<open>exit(code)\<close> after the
  diagnostic \<open>line\<close> was printed; \<open>Panic\<close> is a Go panic. A warning (\<^verbatim>\<open>warn\<close>) prints
  and goes on, so it is left out.
\<close>

datatype failure = Exit int string | Panic string

definition error_text :: "error \<Rightarrow> string" where
  "error_text e = (case e of GRPCStatusError c m \<Rightarrow> m | PlainError m \<Rightarrow> m)"

text \<open>\<^verbatim>\<open>fail(err, msg)\<close>: exit code 1 with a non-nil error, 2 (a usage problem) with nil.\<close>

definition fail :: "error option \<Rightarrow> string \<Rightarrow> failure" where
  "fail err msg =
     (case err of
        Some e \<Rightarrow> Exit 1 (msg @ '': '' @ error_text e)
      | None \<Rightarrow> Exit 2 msg)"

subsection \<open>main: the transport mode (lines 557 to 574)\<close>

text \<open>
  The result is the pair \<^verbatim>\<open>(usetls, forcePlaintext)\<close>, or the failure. \<^verbatim>\<open>parsedAddr\<close> is
  nil (\<open>None\<close>) when the command line has no address.
\<close>

definition select_transport :: "flags \<Rightarrow> parsedTarget option \<Rightarrow> failure + (bool \<times> bool)" where
  "select_transport fl parsedAddr =
     (let usetls = (\<not> plaintext fl \<and> \<not> usealts fl);
          forcePlaintext = plaintext fl
      in case parsedAddr of
           None \<Rightarrow> Inr (usetls, forcePlaintext)
         | Some p \<Rightarrow>
             if wasURL p then
               (if useTLS p \<and> (plaintext fl \<or> usealts fl) then
                  Inl (fail None
                    ''Target URL scheme 'https' requires TLS but -plaintext or -alts flag is set.'')
                else if \<not> useTLS p \<and> \<not> plaintext fl \<and> \<not> usealts fl then Inr (False, True)
                else if useTLS p \<and> \<not> plaintext fl \<and> \<not> usealts fl then Inr (True, forcePlaintext)
                else Inr (usetls, forcePlaintext))
             else Inr (usetls, forcePlaintext))"

subsection \<open>main: the validation of the arguments (lines 577 to 612)\<close>

text \<open>The first check that fails, in the order of the source; \<open>None\<close> when all pass.\<close>

definition validate_flags :: "flags \<Rightarrow> bool \<Rightarrow> failure option" where
  "validate_flags fl usetls =
     (if connectTimeout fl < 0
        then Some (fail None ''The -connect-timeout argument must not be negative.'')
      else if keepaliveTime fl < 0
        then Some (fail None ''The -keepalive-time argument must not be negative.'')
      else if maxTime fl < 0
        then Some (fail None ''The -max-time argument must not be negative.'')
      else if maxMsgSz fl < 0
        then Some (fail None ''The -max-msg-sz argument must not be negative.'')
      else if plaintext fl \<and> usealts fl
        then Some (fail None ''The -plaintext and -alts arguments are mutually exclusive.'')
      else if insecure fl \<and> \<not> usetls
        then Some (fail None ''The -insecure argument can only be used with TLS.'')
      else if cert fl \<noteq> [] \<and> \<not> usetls
        then Some (fail None ''The -cert argument can only be used with TLS.'')
      else if key fl \<noteq> [] \<and> \<not> usetls
        then Some (fail None ''The -key argument can only be used with TLS.'')
      else if (key fl = []) \<noteq> (cert fl = [])
        then Some (fail None
          ''The -cert and -key arguments must be used together and both be present.'')
      else if altsHandshakerServiceAddress fl \<noteq> [] \<and> \<not> usealts fl
        then Some (fail None
          ''The -alts-handshaker-service argument must be used with the -alts argument.'')
      else if altsTargetServiceAccounts fl \<noteq> [] \<and> \<not> usealts fl
        then Some (fail None
          ''The -alts-target-service-account argument must be used with the -alts argument.'')
      else if format fl \<noteq> ''json'' \<and> format fl \<noteq> ''text''
        then Some (fail None ''The -format option must be 'json' or 'text'.'')
      else None)"

text \<open>
  Lines 557 to 612 in sequence. \<open>Inl\<close>: the process has ended, and nothing after these
  lines runs (the closure \<^verbatim>\<open>dial\<close> is defined and called after them). \<open>Inr\<close>: the pair
  \<^verbatim>\<open>(usetls, forcePlaintext)\<close> that \<^verbatim>\<open>dial\<close> reads.
\<close>

definition main_checks :: "flags \<Rightarrow> parsedTarget option \<Rightarrow> failure + (bool \<times> bool)" where
  "main_checks fl parsedAddr =
     (case select_transport fl parsedAddr of
        Inl f \<Rightarrow> Inl f
      | Inr (usetls, forcePlaintext) \<Rightarrow>
          (case validate_flags fl usetls of
             Some f \<Rightarrow> Inl f
           | None \<Rightarrow> Inr (usetls, forcePlaintext)))"

subsection \<open>main: the closure dial (lines 617 to 721)\<close>

text \<open>
  \<^verbatim>\<open>tls.Config\<close>, as \<^verbatim>\<open>dial\<close> writes it: the server name and the key log writer (the name
  of the file it was opened on).
\<close>

record tls_Config =
  ServerName :: string
  KeyLogWriter :: "string option"

record alts_ClientOptions =
  TargetServiceAccounts :: "string list"
  HandshakerServiceAddress :: string

text \<open>\<^verbatim>\<open>credentials.TransportCredentials\<close>: nil, ALTS or TLS.\<close>

datatype TransportCredentials =
  no_creds | alts_NewClientCreds alts_ClientOptions | credentials_NewTLS tls_Config

text \<open>The dial options that \<^verbatim>\<open>dial\<close> appends; durations are in seconds, as the flags are.\<close>

datatype DialOption =
  WithKeepaliveParams real | MaxCallRecvMsgSize int | WithAuthority string | WithUserAgent string

text \<open>
  What \<^verbatim>\<open>dial\<close> reads from outside \<^verbatim>\<open>main\<close>: the variable \<^verbatim>\<open>isUnixSocket\<close> (nil on a
  platform without unix sockets), the variable \<^verbatim>\<open>version\<close>, the environment variable
  \<^verbatim>\<open>SSLKEYLOGFILE\<close>, the result of \<^verbatim>\<open>os.OpenFile\<close> on a name (an error or success), the
  value of \<^verbatim>\<open>alts.DefaultClientOptions()\<close>, and \<^verbatim>\<open>grpcurl.ClientTLSConfig\<close>, a function of
  this repository's library package whose source is not among the files verified here:
  it is a parameter, any function from its four arguments to a configuration or an error.
\<close>

record dial_env =
  isUnixSocket :: "bool option"
  version :: string
  SSLKEYLOGFILE :: string
  OpenFile :: "string \<Rightarrow> error option"
  DefaultClientOptions :: alts_ClientOptions
  ClientTLSConfig :: "bool \<Rightarrow> string \<Rightarrow> string \<Rightarrow> string \<Rightarrow> error + tls_Config"

text \<open>
  An environment for the examples: no unix socket support, no version set, no key log
  file, and a \<^verbatim>\<open>ClientTLSConfig\<close> that succeeds with an empty server name.
\<close>

definition example_env :: dial_env where
  "example_env =
     \<lparr>isUnixSocket = None, version = ''dev build <no version set>'', SSLKEYLOGFILE = [],
      OpenFile = (\<lambda>name. None),
      DefaultClientOptions = \<lparr>TargetServiceAccounts = [], HandshakerServiceAddress = []\<rparr>,
      ClientTLSConfig =
        (\<lambda>insecure' cacert' cert' key'. Inr \<lparr>ServerName = [], KeyLogWriter = None\<rparr>)\<rparr>"

definition noVersion :: string where
  "noVersion = ''dev build <no version set>''"

text \<open>The arguments of the call \<^verbatim>\<open>grpcurl.BlockingDial(ctx, "", target, creds, opts...)\<close>.\<close>

record dial_call =
  dialTime :: real
  dial_target :: string
  creds :: TransportCredentials
  opts :: "DialOption list"

text \<open>The end of \<^verbatim>\<open>dial\<close>, common to the three modes: the user agent and the call.\<close>

definition blocking_dial ::
  "dial_env \<Rightarrow> flags \<Rightarrow> string \<Rightarrow> TransportCredentials \<Rightarrow> DialOption list \<Rightarrow> dial_call" where
  "blocking_dial env fl target creds' opts' =
     (let grpcurlUA0 = (if version env = noVersion then ''grpcurl/dev-build (no version set)''
                        else ''grpcurl/'' @ version env);
          grpcurlUA = (if userAgent fl \<noteq> [] then userAgent fl @ '' '' @ grpcurlUA0
                       else grpcurlUA0)
      in \<lparr>dialTime = (if connectTimeout fl > 0 then connectTimeout fl else 10),
          dial_target = target, creds = creds', opts = opts' @ [WithUserAgent grpcurlUA]\<rparr>)"

definition dial ::
  "dial_env \<Rightarrow> flags \<Rightarrow> parsedTarget option \<Rightarrow> string \<Rightarrow> bool \<Rightarrow> bool \<Rightarrow> failure + dial_call" where
  "dial env fl parsedAddr target usetls forcePlaintext =
     (let opts1 = (if keepaliveTime fl > 0 then [WithKeepaliveParams (keepaliveTime fl)] else []);
          opts2 = opts1 @ (if maxMsgSz fl > 0 then [MaxCallRecvMsgSize (maxMsgSz fl)] else []);
          target' = (if isUnixSocket env = Some True \<and> \<not> HasPrefix target ''unix://''
                     then ''unix://'' @ target else target)
      in if forcePlaintext then
           Inr (blocking_dial env fl target' no_creds
                  (opts2 @ (if authority fl \<noteq> [] then [WithAuthority (authority fl)] else [])))
         else if usealts fl then
           (let clientOptions1 =
                  (if altsTargetServiceAccounts fl \<noteq> []
                   then (DefaultClientOptions env)
                          \<lparr>TargetServiceAccounts := altsTargetServiceAccounts fl\<rparr>
                   else DefaultClientOptions env);
                clientOptions =
                  (if altsHandshakerServiceAddress fl \<noteq> []
                   then clientOptions1\<lparr>HandshakerServiceAddress := altsHandshakerServiceAddress fl\<rparr>
                   else clientOptions1)
            in Inr (blocking_dial env fl target' (alts_NewClientCreds clientOptions) opts2))
         else if usetls then
           (case ClientTLSConfig env (insecure fl) (cacert fl) (cert fl) (key fl) of
              Inl err \<Rightarrow> Inl (fail (Some err) ''Failed to create TLS config'')
            | Inr tlsConf0 \<Rightarrow>
                (let tlsConf1 =
                       (case parsedAddr of
                          None \<Rightarrow> tlsConf0
                        | Some p \<Rightarrow>
                            if wasURL p \<and> path p \<noteq> [] \<and> path p \<noteq> ''/''
                            then tlsConf0\<lparr>ServerName := host p\<rparr> else tlsConf0)
                 in case (if SSLKEYLOGFILE env \<noteq> [] then OpenFile env (SSLKEYLOGFILE env) else None) of
                      Some err \<Rightarrow>
                        Inl (fail (Some err) (''Could not open SSLKEYLOGFILE '' @ SSLKEYLOGFILE env))
                    | None \<Rightarrow>
                        (let tlsConf =
                               (if SSLKEYLOGFILE env \<noteq> []
                                then tlsConf1\<lparr>KeyLogWriter := Some (SSLKEYLOGFILE env)\<rparr>
                                else tlsConf1)
                         in if serverName fl \<noteq> [] \<and> authority fl \<noteq> []
                                 \<and> serverName fl \<noteq> authority fl
                            then Inl (fail None
                              ''Cannot specify different values for -servername and -authority.'')
                            else
                              (let overrideName =
                                     (if serverName fl = [] then authority fl else serverName fl)
                               in Inr (blocking_dial env fl target' (credentials_NewTLS tlsConf)
                                    (opts2 @ (if overrideName \<noteq> [] then [WithAuthority overrideName]
                                              else [])))))))
         else Inl (Panic ''Should have defaulted to use TLS.''))"

subsection \<open>main: the end of an invocation (lines 979 to 1007)\<close>

definition statusCodeOffset :: "64 word" where
  "statusCodeOffset = 64"

definition codes_OK :: "32 word" where
  "codes_OK = 0"

definition codes_Unknown :: "32 word" where
  "codes_Unknown = 2"

text \<open>
  \<^verbatim>\<open>(*Status).Code\<close>: a nil status has the code OK. \<^verbatim>\<open>status.FromError\<close> on a non-nil
  error: the error's own status, or the code Unknown and \<^verbatim>\<open>false\<close>.
\<close>

definition Status_Code :: "Status option \<Rightarrow> 32 word" where
  "Status_Code st = (case st of None \<Rightarrow> codes_OK | Some s \<Rightarrow> Code s)"

definition status_FromError :: "error \<Rightarrow> Status option \<times> bool" where
  "status_FromError e =
     (case e of
        GRPCStatusError c m \<Rightarrow> (Some \<lparr>Code = c, Message = m\<rparr>, True)
      | PlainError m \<Rightarrow> (Some \<lparr>Code = codes_Unknown, Message = m\<rparr>, False))"

text \<open>
  The argument of \<^verbatim>\<open>exit\<close> at line 1006, \<^verbatim>\<open>statusCodeOffset + int(h.Status.Code())\<close>: a Go
  \<^verbatim>\<open>int\<close> of 64 bits, read as a signed number.
\<close>

definition status_exit_code :: "32 word \<Rightarrow> int" where
  "status_exit_code c = sint (statusCodeOffset + (ucast c :: 64 word))"

text \<open>
  \<^verbatim>\<open>exit\<close> is \<^verbatim>\<open>os.Exit\<close> (line 48; the closure of line 796 calls it too). The exit code
  that the parent of the process observes is, on a POSIX system, the low eight bits of the
  argument: the argument modulo 256, also for a negative one.
\<close>

definition process_exit_code :: "int \<Rightarrow> int" where
  "process_exit_code code = code mod 256"

text \<open>
  From the return of \<^verbatim>\<open>grpcurl.InvokeRPC\<close> to the end of \<^verbatim>\<open>main\<close>: \<open>err\<close> is the error
  it returned, \<open>hStatus\<close> the status that the event handler recorded in \<^verbatim>\<open>h.Status\<close>.
  \<open>None\<close>: \<^verbatim>\<open>main\<close> returns (the process ends with code 0). \<open>Exit n line\<close> carries the
  argument \<open>n\<close> of \<^verbatim>\<open>exit\<close>; the exit code of the process is \<open>process_exit_code n\<close>.
\<close>

definition invoke_finish :: "flags \<Rightarrow> error option \<Rightarrow> Status option \<Rightarrow> failure option" where
  "invoke_finish fl err hStatus =
     (case (case err of
              None \<Rightarrow> Inr hStatus
            | Some e \<Rightarrow>
                if snd (status_FromError e) \<and> formatError fl then Inr (fst (status_FromError e))
                else Inl (fail (Some e) ''Error invoking method'')) of
        Inl f \<Rightarrow> Some f
      | Inr st \<Rightarrow>
          if Status_Code st \<noteq> codes_OK
          then Some (Exit (status_exit_code (Status_Code st))
                       (case st of None \<Rightarrow> [] | Some s \<Rightarrow> Message s))
          else None)"

section \<open>Properties\<close>

subsection \<open>compositeSource\<close>

lemma track_tags_eq: "track_tags exts tags n = (tags n \<or> n \<in> GetNumber ` set exts)"
  by (induction exts arbitrary: tags) auto

lemma append_untracked_eq:
  "append_untracked tags fileExts exts = exts @ filter (\<lambda>e. \<not> tags (GetNumber e)) fileExts"
  by (induction fileExts arbitrary: exts) auto

text \<open>
  C1. \<^verbatim>\<open>compositeSource.AllExtensionsForType\<close>: when the reflection query fails, the result
  is the file source's result, success or failure; when reflection succeeds and the file
  query fails, the result is the reflection extensions alone; when both succeed, the result
  is the reflection extensions followed by every file extension whose tag number is not the
  tag number of a reflection extension, in the file source's order.
\<close>

theorem C1_AllExtensionsForType:
  "(\<forall>err. AllExtensionsForType (reflection cs) typeName = Inl err \<longrightarrow>
      compositeSource_AllExtensionsForType cs typeName
        = AllExtensionsForType (file_source cs) typeName)
   \<and> (\<forall>exts err. AllExtensionsForType (reflection cs) typeName = Inr exts
        \<and> AllExtensionsForType (file_source cs) typeName = Inl err \<longrightarrow>
      compositeSource_AllExtensionsForType cs typeName = Inr exts)
   \<and> (\<forall>exts fileExts. AllExtensionsForType (reflection cs) typeName = Inr exts
        \<and> AllExtensionsForType (file_source cs) typeName = Inr fileExts \<longrightarrow>
      compositeSource_AllExtensionsForType cs typeName
        = Inr (exts @ filter (\<lambda>e. GetNumber e \<notin> GetNumber ` set exts) fileExts))"
  by (simp add: compositeSource_AllExtensionsForType_def append_untracked_eq track_tags_eq)

text \<open>
  The example of the specification: reflection has tag 5, the file source tags 5 and 7; the
  result is reflection's 5 and the file's 7.
\<close>

theorem C1_AllExtensionsForType_witness:
  "compositeSource_AllExtensionsForType
     (\<lparr>reflection = \<lparr>ListServices = Inr [], FindSymbol = (\<lambda>n. Inl (PlainError n)),
        AllExtensionsForType =
          (\<lambda>t. Inr [\<lparr>GetNumber = 5, GetFullyQualifiedName = ''refl.five''\<rparr>])\<rparr>,
      file_source = \<lparr>ListServices = Inr [], FindSymbol = (\<lambda>n. Inl (PlainError n)),
        AllExtensionsForType =
          (\<lambda>t. Inr [\<lparr>GetNumber = 5, GetFullyQualifiedName = ''file.five''\<rparr>,
                    \<lparr>GetNumber = 7, GetFullyQualifiedName = ''file.seven''\<rparr>])\<rparr>\<rparr>
      :: unit compositeSource) ''T''
   = Inr [\<lparr>GetNumber = 5, GetFullyQualifiedName = ''refl.five''\<rparr>,
          \<lparr>GetNumber = 7, GetFullyQualifiedName = ''file.seven''\<rparr>]"
  using C1_AllExtensionsForType [of
     "\<lparr>reflection = \<lparr>ListServices = Inr [], FindSymbol = (\<lambda>n. Inl (PlainError n)),
        AllExtensionsForType =
          (\<lambda>t. Inr [\<lparr>GetNumber = 5, GetFullyQualifiedName = ''refl.five''\<rparr>])\<rparr>,
      file_source = \<lparr>ListServices = Inr [], FindSymbol = (\<lambda>n. Inl (PlainError n)),
        AllExtensionsForType =
          (\<lambda>t. Inr [\<lparr>GetNumber = 5, GetFullyQualifiedName = ''file.five''\<rparr>,
                    \<lparr>GetNumber = 7, GetFullyQualifiedName = ''file.seven''\<rparr>])\<rparr>\<rparr>
      :: unit compositeSource" "''T''"]
  by simp

text \<open>
  C5. \<^verbatim>\<open>compositeSource.FindSymbol\<close>: a descriptor found by reflection is returned; on any
  reflection error, whatever the error, the result is the file source's result, descriptor
  or error.
\<close>

theorem C5_FindSymbol:
  "(\<forall>d. FindSymbol (reflection cs) name = Inr d \<longrightarrow> compositeSource_FindSymbol cs name = Inr d)
   \<and> (\<forall>err. FindSymbol (reflection cs) name = Inl err \<longrightarrow>
        compositeSource_FindSymbol cs name = FindSymbol (file_source cs) name)"
  by (simp add: compositeSource_FindSymbol_def)

text \<open>Reflection does not find the symbol, the file source does: the file's descriptor.\<close>

theorem C5_FindSymbol_witness:
  "compositeSource_FindSymbol
     \<lparr>reflection = \<lparr>ListServices = Inr [],
        FindSymbol = (\<lambda>n. Inl (PlainError ''Symbol not found'')),
        AllExtensionsForType = (\<lambda>t. Inr [])\<rparr>,
      file_source = \<lparr>ListServices = Inr [], FindSymbol = (\<lambda>n. Inr (length n)),
        AllExtensionsForType = (\<lambda>t. Inr [])\<rparr>\<rparr> ''pkg.Msg''
   = Inr 7"
  using C5_FindSymbol [of
     "\<lparr>reflection = \<lparr>ListServices = Inr [],
        FindSymbol = (\<lambda>n. Inl (PlainError ''Symbol not found'')),
        AllExtensionsForType = (\<lambda>t. Inr [])\<rparr>,
      file_source = \<lparr>ListServices = Inr [], FindSymbol = (\<lambda>n. Inr (length n)),
        AllExtensionsForType = (\<lambda>t. Inr [])\<rparr>\<rparr>" "''pkg.Msg''"]
  by simp

text \<open>
  C9. \<^verbatim>\<open>compositeSource.ListServices\<close> is the reflection source's listing, result or
  error; it does not depend on the file source, and a service that only the file source
  lists is not in the listing.
\<close>

theorem C9_ListServices:
  "compositeSource_ListServices cs = ListServices (reflection cs)
   \<and> compositeSource_ListServices (cs\<lparr>file_source := other\<rparr>) = compositeSource_ListServices cs
   \<and> (\<forall>listed fileSvcs reflSvcs s.
         compositeSource_ListServices cs = Inr listed
         \<and> ListServices (file_source cs) = Inr fileSvcs
         \<and> ListServices (reflection cs) = Inr reflSvcs
         \<and> s \<in> set fileSvcs \<and> s \<notin> set reflSvcs \<longrightarrow> s \<notin> set listed)"
  by (auto simp add: compositeSource_ListServices_def)

theorem C9_ListServices_witness:
  "compositeSource_ListServices
     (\<lparr>reflection = \<lparr>ListServices = Inr [''live.Svc''],
        FindSymbol = (\<lambda>n. Inl (PlainError n)),
        AllExtensionsForType = (\<lambda>t. Inr [])\<rparr>,
      file_source = \<lparr>ListServices = Inr [''live.Svc'', ''file.Only''],
        FindSymbol = (\<lambda>n. Inl (PlainError n)),
        AllExtensionsForType = (\<lambda>t. Inr [])\<rparr>\<rparr> :: unit compositeSource)
   = Inr [''live.Svc''] \<and> ''file.Only'' \<notin> set [''live.Svc'']"
  using C9_ListServices [of
     "\<lparr>reflection = \<lparr>ListServices = Inr [''live.Svc''],
        FindSymbol = (\<lambda>n. Inl (PlainError n)),
        AllExtensionsForType = (\<lambda>t. Inr [])\<rparr>,
      file_source = \<lparr>ListServices = Inr [''live.Svc'', ''file.Only''],
        FindSymbol = (\<lambda>n. Inl (PlainError n)),
        AllExtensionsForType = (\<lambda>t. Inr [])\<rparr>\<rparr> :: unit compositeSource"]
  by simp

subsection \<open>The exit code of a finished invocation\<close>

text \<open>The sum at line 1006 does not wrap around in 64 bits.\<close>

lemma status_exit_code_eq: "status_exit_code c = 64 + uint c"
proof -
  have b: "uint c < 2 ^ 32" using uint_lt2p [of c] by simp
  have u: "uint (ucast c :: 64 word) = uint c"
    by (simp add: uint_up_ucast is_up)
  have "uint (64 + ucast c :: 64 word) = (64 + uint c) mod 2 ^ 64"
    by (simp add: uint_word_ariths u)
  also have "\<dots> = 64 + uint c" using b by simp
  finally have s: "uint (64 + ucast c :: 64 word) = 64 + uint c" .
  have "sint (64 + ucast c :: 64 word) = signed_take_bit 63 (uint (64 + ucast c :: 64 word))"
    by (simp add: sint_uint)
  also have "\<dots> = signed_take_bit 63 (64 + uint c)" by (simp only: s)
  also have "\<dots> = 64 + uint c"
    using b by (intro signed_take_bit_int_eq_self) simp_all
  finally show ?thesis
    by (simp add: status_exit_code_def statusCodeOffset_def)
qed

text \<open>
  C2, as the code has it. When \<^verbatim>\<open>InvokeRPC\<close> returns without error and the handler's
  status has a code \<open>c\<close> other than OK, \<^verbatim>\<open>main\<close> calls \<^verbatim>\<open>exit\<close> with \<open>64 + c\<close>; so it does
  when \<^verbatim>\<open>InvokeRPC\<close> returns a status error and \<^verbatim>\<open>-format-error\<close> is set. With the code OK,
  \<^verbatim>\<open>main\<close> returns and \<^verbatim>\<open>exit\<close> is not called. The exit code of the process is
  \<open>(64 + c) mod 256\<close>. For every code up to 191 (the codes 1 to 16 that gRPC defines among
  them) it is \<open>64 + c\<close> itself, it is none of 0, 1 and 2, and it differs from the exit code
  of every call of \<^verbatim>\<open>fail\<close>.
\<close>

theorem C2_status_exit_code:
  "(Status_Code hStatus \<noteq> codes_OK \<longrightarrow>
      invoke_finish fl None hStatus
        = Some (Exit (64 + uint (Status_Code hStatus))
                  (case hStatus of None \<Rightarrow> [] | Some s \<Rightarrow> Message s)))
   \<and> (formatError fl \<and> c \<noteq> codes_OK \<longrightarrow>
        invoke_finish fl (Some (GRPCStatusError c m)) hStatus = Some (Exit (64 + uint c) m))
   \<and> (Status_Code hStatus = codes_OK \<longrightarrow> invoke_finish fl None hStatus = None)
   \<and> process_exit_code (status_exit_code c) = (64 + uint c) mod 256
   \<and> (uint c \<le> 191 \<longrightarrow>
        process_exit_code (status_exit_code c) = 64 + uint c
        \<and> process_exit_code (status_exit_code c) \<noteq> 0
        \<and> process_exit_code (status_exit_code c) \<noteq> 1
        \<and> process_exit_code (status_exit_code c) \<noteq> 2
        \<and> (\<forall>err msg code line. fail err msg = Exit code line \<longrightarrow>
              process_exit_code code \<noteq> process_exit_code (status_exit_code c)))"
proof -
  have a: "Status_Code hStatus \<noteq> codes_OK \<longrightarrow>
      invoke_finish fl None hStatus
        = Some (Exit (64 + uint (Status_Code hStatus))
                  (case hStatus of None \<Rightarrow> [] | Some s \<Rightarrow> Message s))"
    by (simp add: invoke_finish_def status_exit_code_eq)
  have b: "formatError fl \<and> c \<noteq> codes_OK \<longrightarrow>
        invoke_finish fl (Some (GRPCStatusError c m)) hStatus = Some (Exit (64 + uint c) m)"
    by (simp add: invoke_finish_def status_exit_code_eq status_FromError_def Status_Code_def)
  have c: "Status_Code hStatus = codes_OK \<longrightarrow> invoke_finish fl None hStatus = None"
    by (simp add: invoke_finish_def)
  have d: "process_exit_code (status_exit_code c) = (64 + uint c) mod 256"
    by (simp add: process_exit_code_def status_exit_code_eq)
  have e: "uint c \<le> 191 \<longrightarrow>
        process_exit_code (status_exit_code c) = 64 + uint c
        \<and> process_exit_code (status_exit_code c) \<noteq> 0
        \<and> process_exit_code (status_exit_code c) \<noteq> 1
        \<and> process_exit_code (status_exit_code c) \<noteq> 2
        \<and> (\<forall>err msg code line. fail err msg = Exit code line \<longrightarrow>
              process_exit_code code \<noteq> process_exit_code (status_exit_code c))"
  proof
    assume le: "uint c \<le> 191"
    have p: "0 \<le> uint c" by simp
    have small: "(64 + uint c) mod 256 = 64 + uint c"
      using p le by simp
    have v: "process_exit_code (status_exit_code c) = 64 + uint c"
      using d small by simp
    have n: "64 + uint c \<noteq> 0" "64 + uint c \<noteq> 1" "64 + uint c \<noteq> 2"
      using p by arith+
    have f: "\<And>err msg code line. fail err msg = Exit code line \<Longrightarrow> code = 1 \<or> code = 2"
      by (auto simp: fail_def split: option.splits)
    have g: "\<forall>err msg code line. fail err msg = Exit code line \<longrightarrow>
              process_exit_code code \<noteq> process_exit_code (status_exit_code c)"
    proof (intro allI impI)
      fix err msg code line
      assume "fail err msg = Exit code line"
      then have "code = 1 \<or> code = 2" by (rule f)
      then have "process_exit_code code = 1 \<or> process_exit_code code = 2"
        by (auto simp: process_exit_code_def)
      then show "process_exit_code code \<noteq> process_exit_code (status_exit_code c)"
        using v n by auto
    qed
    show "process_exit_code (status_exit_code c) = 64 + uint c
        \<and> process_exit_code (status_exit_code c) \<noteq> 0
        \<and> process_exit_code (status_exit_code c) \<noteq> 1
        \<and> process_exit_code (status_exit_code c) \<noteq> 2
        \<and> (\<forall>err msg code line. fail err msg = Exit code line \<longrightarrow>
              process_exit_code code \<noteq> process_exit_code (status_exit_code c))"
      using v n g by simp
  qed
  show ?thesis
    using a b c d e by blast
qed

text \<open>
  The status code 5 gives the call \<^verbatim>\<open>exit(69)\<close> and the exit code 69; the code 0 gives no
  call of exit.
\<close>

theorem C2_status_exit_code_witness:
  "invoke_finish default_flags None (Some \<lparr>Code = 5, Message = ''not found''\<rparr>)
     = Some (Exit 69 ''not found'')
   \<and> process_exit_code (status_exit_code 5) = 69
   \<and> invoke_finish default_flags None (Some \<lparr>Code = 0, Message = []\<rparr>) = None"
  using C2_status_exit_code [of "Some \<lparr>Code = 5, Message = ''not found''\<rparr>" default_flags 5 "[]"]
    C2_status_exit_code [of "Some \<lparr>Code = 0, Message = []\<rparr>" default_flags 5 "[]"]
  by (simp add: Status_Code_def codes_OK_def)

text \<open>
  Beyond 191 the exit code wraps around. A terminal status with the code 193 makes \<^verbatim>\<open>main\<close>
  call \<^verbatim>\<open>exit(257)\<close>: the exit code of the process is 1, not 257, and it is the exit code
  of a fatal error (\<^verbatim>\<open>fail\<close> with an error). The code 194 gives the exit code 2 of a usage
  error, and the code 192 the exit code 0.
\<close>

theorem C2_exit_code_wraps_counterexample:
  "invoke_finish default_flags None (Some \<lparr>Code = 193, Message = []\<rparr>) = Some (Exit 257 [])
   \<and> process_exit_code 257 = 1
   \<and> process_exit_code 257 \<noteq> 64 + 193
   \<and> fail (Some (PlainError [])) [] = Exit 1 '': ''
   \<and> process_exit_code 1 = 1
   \<and> invoke_finish default_flags None (Some \<lparr>Code = 194, Message = []\<rparr>) = Some (Exit 258 [])
   \<and> process_exit_code 258 = 2
   \<and> invoke_finish default_flags None (Some \<lparr>Code = 192, Message = []\<rparr>) = Some (Exit 256 [])
   \<and> process_exit_code 256 = 0"
  by (simp add: invoke_finish_def status_exit_code_eq Status_Code_def codes_OK_def
      process_exit_code_def fail_def error_text_def)

subsection \<open>parseTarget\<close>

lemma setPath_Scheme: "setPath u p = Inr v \<Longrightarrow> Scheme v = Scheme u"
  by (auto simp: setPath_def split: sum.splits)

lemma setFragment_Scheme: "setFragment u f = Inr v \<Longrightarrow> Scheme v = Scheme u"
  by (auto simp: setFragment_def split: sum.splits)

lemma parse_rest_Scheme: "parse_rest s r = Inr v \<Longrightarrow> Scheme v = s"
  by (auto simp: parse_rest_def Let_def split: if_splits sum.splits prod.splits
      dest: setPath_Scheme)

lemma getScheme_unix: "getScheme (''unix:'' @ r) = Inr (''unix'', r)"
  by (simp add: getScheme_def is_lower_def is_upper_def is_digit_def byte_def)

lemma getScheme_xds: "getScheme (''xds:'' @ r) = Inr (''xds'', r)"
  by (simp add: getScheme_def is_lower_def is_upper_def is_digit_def byte_def)

lemma parse_Scheme:
  "getScheme raw = Inr (sch, rest) \<Longrightarrow> raw \<noteq> ''*'' \<Longrightarrow> parse raw = Inr v
     \<Longrightarrow> Scheme v = ToLower sch"
  by (auto simp: parse_def split: if_splits dest: parse_rest_Scheme)

lemma parse_unix: "parse (''unix:'' @ r) = Inr v \<Longrightarrow> Scheme v = ''unix''"
  using parse_Scheme [OF getScheme_unix, of r v]
  by (simp add: ToLower_def is_upper_def byte_def)

lemma parse_xds: "parse (''xds:'' @ r) = Inr v \<Longrightarrow> Scheme v = ''xds''"
  using parse_Scheme [OF getScheme_xds, of r v]
  by (simp add: ToLower_def is_upper_def byte_def)

lemma url_Parse_Scheme:
  "url_Parse t = Inr v \<Longrightarrow> \<exists>u. parse (fst (Cut t CHR ''#'')) = Inr u \<and> Scheme v = Scheme u"
  by (auto simp: url_Parse_def split: sum.splits if_splits dest: setFragment_Scheme)

lemma HasPrefix_ex: "HasPrefix s pre \<Longrightarrow> \<exists>r. s = pre @ r"
  unfolding HasPrefix_def by (metis append_take_drop_id)

text \<open>
  A target that \<^verbatim>\<open>parseTarget\<close> passes through for its prefix would not parse with the
  scheme http or https either: its scheme is unix or xds.
\<close>

lemma special_prefix_Scheme:
  assumes "HasPrefix t ''unix://'' \<or> HasPrefix t ''xds:///''" and "url_Parse t = Inr v"
  shows "Scheme v = ''unix'' \<or> Scheme v = ''xds''"
proof -
  obtain u where u: "parse (fst (Cut t CHR ''#'')) = Inr u" "Scheme v = Scheme u"
    using url_Parse_Scheme [OF assms(2)] by blast
  from assms(1) show ?thesis
  proof
    assume "HasPrefix t ''unix://''"
    then obtain r where "t = ''unix://'' @ r" using HasPrefix_ex by blast
    then have "fst (Cut t CHR ''#'') = ''unix:'' @ takeWhile (\<lambda>c. c \<noteq> CHR ''#'') (''//'' @ r)"
      by (simp add: Cut_def)
    then show ?thesis using u parse_unix by metis
  next
    assume "HasPrefix t ''xds:///''"
    then obtain r where "t = ''xds:///'' @ r" using HasPrefix_ex by blast
    then have "fst (Cut t CHR ''#'') = ''xds:'' @ takeWhile (\<lambda>c. c \<noteq> CHR ''#'') (''///'' @ r)"
      by (simp add: Cut_def)
    then show ?thesis using u parse_xds by metis
  qed
qed

text \<open>
  C3. For every target whose URL parse has the scheme http or https, \<^verbatim>\<open>parseTarget\<close>
  returns the URL's host name and port (the port 443 for https and 80 for http when the URL
  has none), the address \<open>host:port\<close>, the URL's path, \<open>useTLS\<close> true exactly for https,
  and \<open>wasURL\<close> true.
\<close>

theorem C3_parseTarget_http_https:
  assumes "url_Parse target = Inr parsed"
    and "Scheme parsed = ''http'' \<or> Scheme parsed = ''https''"
  shows "parseTarget target =
    Inr \<lparr>address = Hostname parsed @ '':'' @
            (if Port parsed = [] then (if Scheme parsed = ''https'' then ''443'' else ''80'')
             else Port parsed),
         scheme = Scheme parsed,
         host = Hostname parsed,
         port = (if Port parsed = [] then (if Scheme parsed = ''https'' then ''443'' else ''80'')
                 else Port parsed),
         path = Path parsed,
         useTLS = (Scheme parsed = ''https''),
         wasURL = True\<rparr>"
proof -
  have "\<not> (HasPrefix target ''unix://'' \<or> HasPrefix target ''xds:///'')"
    using special_prefix_Scheme [OF _ assms(1)] assms(2) by auto
  then show ?thesis
    using assms by (auto simp: parseTarget_def Let_def)
qed

text \<open>The example of the specification, \<^verbatim>\<open>https://example.com/svc\<close>.\<close>

theorem C3_parseTarget_http_https_witness:
  "parseTarget ''https://example.com/svc'' =
     Inr \<lparr>address = ''example.com:443'', scheme = ''https'', host = ''example.com'',
          port = ''443'', path = ''/svc'', useTLS = True, wasURL = True\<rparr>"
proof -
  have p: "url_Parse ''https://example.com/svc'' =
     Inr \<lparr>Scheme = ''https'', Opaque = [], Host = ''example.com'', Path = ''/svc'',
          RawQuery = [], Fragment = []\<rparr>"
    by code_simp
  have h: "Hostname \<lparr>Scheme = ''https'', Opaque = [], Host = ''example.com'', Path = ''/svc'',
          RawQuery = [], Fragment = []\<rparr> = ''example.com''"
    by code_simp
  have q: "Port \<lparr>Scheme = ''https'', Opaque = [], Host = ''example.com'', Path = ''/svc'',
          RawQuery = [], Fragment = []\<rparr> = []"
    by code_simp
  show ?thesis
    using C3_parseTarget_http_https [OF p] by (simp add: h q)
qed

text \<open>
  C6. \<^verbatim>\<open>parseTarget\<close> returns a result for every target, never an error. A target with
  one of the two passed-through prefixes, or that \<^verbatim>\<open>url.Parse\<close> rejects, or whose parse has
  a scheme other than http and https, comes back as it is: the address is the target,
  \<open>wasURL\<close> and \<open>useTLS\<close> are false. When the parse has such a scheme and an empty host,
  path, query and fragment (a bare \<open>host:port\<close> read as \<open>scheme:opaque\<close>), the scheme
  field of the result is empty as well.
\<close>

theorem C6_parseTarget_never_fails:
  "(\<exists>p. parseTarget target = Inr p)
   \<and> (HasPrefix target ''unix://'' \<or> HasPrefix target ''xds:///''
        \<or> (\<exists>err. url_Parse target = Inl err)
        \<or> (\<exists>parsed. url_Parse target = Inr parsed
              \<and> Scheme parsed \<noteq> ''http'' \<and> Scheme parsed \<noteq> ''https'') \<longrightarrow>
       (\<exists>p. parseTarget target = Inr p \<and> address p = target \<and> host p = target
            \<and> \<not> wasURL p \<and> \<not> useTLS p))
   \<and> (\<forall>parsed. url_Parse target = Inr parsed
          \<and> Scheme parsed \<noteq> ''http'' \<and> Scheme parsed \<noteq> ''https''
          \<and> Host parsed = [] \<and> Path parsed = [] \<and> RawQuery parsed = []
          \<and> Fragment parsed = [] \<longrightarrow>
        parseTarget target =
          Inr \<lparr>address = target, scheme = [], host = target, port = [], path = [],
               useTLS = False, wasURL = False\<rparr>)"
  by (auto simp: parseTarget_def opaque_target_def Let_def split: sum.splits)

text \<open>
  The example of the specification, \<^verbatim>\<open>myhost:1234\<close>: the URL parse reads \<open>myhost\<close> as a
  scheme, and \<^verbatim>\<open>parseTarget\<close> returns the target as it is.
\<close>

theorem C6_parseTarget_never_fails_witness:
  "url_Parse ''myhost:1234'' =
     Inr \<lparr>Scheme = ''myhost'', Opaque = ''1234'', Host = [], Path = [], RawQuery = [],
          Fragment = []\<rparr>
   \<and> parseTarget ''myhost:1234'' =
     Inr \<lparr>address = ''myhost:1234'', scheme = [], host = ''myhost:1234'', port = [], path = [],
          useTLS = False, wasURL = False\<rparr>"
proof -
  have p: "url_Parse ''myhost:1234'' =
     Inr \<lparr>Scheme = ''myhost'', Opaque = ''1234'', Host = [], Path = [], RawQuery = [],
          Fragment = []\<rparr>"
    by code_simp
  show ?thesis
    using C6_parseTarget_never_fails [of "''myhost:1234''"] p by simp
qed

text \<open>
  C8. An http or https URL with an IPv6 literal as host: \<^verbatim>\<open>Hostname\<close> removes the brackets,
  and \<^verbatim>\<open>parseTarget\<close> joins host and port with a colon and no brackets. The address of
  \<^verbatim>\<open>https://[::1]:8443/svc\<close> is \<^verbatim>\<open>::1:8443\<close>, not \<^verbatim>\<open>[::1]:8443\<close>; with the default port,
  the address of \<^verbatim>\<open>http://[2001:db8::1]\<close> is \<^verbatim>\<open>2001:db8::1:80\<close>.
\<close>

theorem C8_ipv6_brackets_dropped:
  "url_Parse ''https://[::1]:8443/svc'' =
     Inr \<lparr>Scheme = ''https'', Opaque = [], Host = ''[::1]:8443'', Path = ''/svc'',
          RawQuery = [], Fragment = []\<rparr>
   \<and> parseTarget ''https://[::1]:8443/svc'' =
     Inr \<lparr>address = ''::1:8443'', scheme = ''https'', host = ''::1'', port = ''8443'',
          path = ''/svc'', useTLS = True, wasURL = True\<rparr>
   \<and> parseTarget ''http://[2001:db8::1]'' =
     Inr \<lparr>address = ''2001:db8::1:80'', scheme = ''http'', host = ''2001:db8::1'', port = ''80'',
          path = [], useTLS = False, wasURL = True\<rparr>"
  by code_simp

subsection \<open>main: transport mode and validation\<close>

text \<open>
  C4. A target that is a URL with \<open>useTLS\<close> true (https) together with \<^verbatim>\<open>-plaintext\<close> or
  \<^verbatim>\<open>-alts\<close> ends the process with the diagnostic of line 564 and exit code 2, before the
  validation and before \<^verbatim>\<open>dial\<close>. A target that is a URL with \<open>useTLS\<close> false (http) and
  neither flag gives no failure: \<open>usetls\<close> is false, \<open>forcePlaintext\<close> is true, and \<^verbatim>\<open>dial\<close>
  then dials with no transport credentials (plaintext).
\<close>

theorem C4_transport_asymmetry:
  "(wasURL p \<and> useTLS p \<and> (plaintext fl \<or> usealts fl) \<longrightarrow>
      select_transport fl (Some p)
        = Inl (Exit 2 ''Target URL scheme 'https' requires TLS but -plaintext or -alts flag is set.'')
      \<and> main_checks fl (Some p)
        = Inl (Exit 2 ''Target URL scheme 'https' requires TLS but -plaintext or -alts flag is set.''))
   \<and> (wasURL q \<and> \<not> useTLS q \<and> \<not> plaintext gl \<and> \<not> usealts gl \<longrightarrow>
      select_transport gl (Some q) = Inr (False, True)
      \<and> (\<exists>d. dial env gl (Some q) target False True = Inr d \<and> creds d = no_creds))"
  by (simp add: select_transport_def main_checks_def fail_def dial_def Let_def blocking_dial_def)

text \<open>
  \<^verbatim>\<open>https://example.com/svc\<close> with \<^verbatim>\<open>-plaintext\<close> fails; \<^verbatim>\<open>http://example.com:8080\<close> with
  the default flags passes all checks and dials in plaintext.
\<close>

theorem C4_transport_asymmetry_witness:
  "main_checks (default_flags\<lparr>plaintext := True\<rparr>)
       (Some \<lparr>address = ''example.com:443'', scheme = ''https'', host = ''example.com'',
          port = ''443'', path = ''/svc'', useTLS = True, wasURL = True\<rparr>)
     = Inl (Exit 2 ''Target URL scheme 'https' requires TLS but -plaintext or -alts flag is set.'')
   \<and> main_checks default_flags
       (Some \<lparr>address = ''example.com:8080'', scheme = ''http'', host = ''example.com'',
          port = ''8080'', path = [], useTLS = False, wasURL = True\<rparr>)
     = Inr (False, True)
   \<and> (\<exists>d. dial example_env default_flags
       (Some \<lparr>address = ''example.com:8080'', scheme = ''http'', host = ''example.com'',
          port = ''8080'', path = [], useTLS = False, wasURL = True\<rparr>) ''example.com:8080''
          False True
       = Inr d \<and> creds d = no_creds)"
proof -
  have m: "validate_flags default_flags False = None"
    by (simp add: validate_flags_def default_flags_def)
  show ?thesis
    using C4_transport_asymmetry [of
      "\<lparr>address = ''example.com:443'', scheme = ''https'', host = ''example.com'',
          port = ''443'', path = ''/svc'', useTLS = True, wasURL = True\<rparr>"
      "default_flags\<lparr>plaintext := True\<rparr>"
      "\<lparr>address = ''example.com:8080'', scheme = ''http'', host = ''example.com'',
          port = ''8080'', path = [], useTLS = False, wasURL = True\<rparr>"
      default_flags example_env "''example.com:8080''"] m
    by (simp add: default_flags_def main_checks_def)
qed

lemma validate_flags_usage:
  "validate_flags fl usetls = Some f \<Longrightarrow> \<exists>line. f = Exit 2 line"
  by (auto simp: validate_flags_def fail_def split: if_splits)

lemma validate_flags_tls_only:
  "insecure fl \<or> cert fl \<noteq> [] \<or> key fl \<noteq> [] \<Longrightarrow> \<exists>f. validate_flags fl False = Some f"
  by (auto simp: validate_flags_def)

text \<open>
  C7, as the code has it. When the transport mode is not TLS (\<open>usetls\<close> is false after lines
  557 to 574), \<^verbatim>\<open>-insecure\<close>, a client certificate or a client key ends the process with a
  diagnostic and exit code 2 before \<^verbatim>\<open>dial\<close>. The server name override \<^verbatim>\<open>-servername\<close> is
  not checked: neither the checks nor, outside TLS mode, \<^verbatim>\<open>dial\<close> read it.
\<close>

theorem C7_tls_only_options:
  "(select_transport fl parsedAddr = Inr (False, forcePlaintext)
      \<and> (insecure fl \<or> cert fl \<noteq> [] \<or> key fl \<noteq> []) \<longrightarrow>
        (\<exists>line. main_checks fl parsedAddr = Inl (Exit 2 line)))
   \<and> main_checks (fl\<lparr>serverName := name\<rparr>) parsedAddr = main_checks fl parsedAddr
   \<and> dial env (fl\<lparr>serverName := name\<rparr>) parsedAddr target False forcePlaintext
        = dial env fl parsedAddr target False forcePlaintext"
proof -
  have a: "select_transport fl parsedAddr = Inr (False, forcePlaintext)
      \<and> (insecure fl \<or> cert fl \<noteq> [] \<or> key fl \<noteq> []) \<longrightarrow>
        (\<exists>line. main_checks fl parsedAddr = Inl (Exit 2 line))"
  proof
    assume h: "select_transport fl parsedAddr = Inr (False, forcePlaintext)
      \<and> (insecure fl \<or> cert fl \<noteq> [] \<or> key fl \<noteq> [])"
    then obtain f where f: "validate_flags fl False = Some f"
      using validate_flags_tls_only by blast
    then obtain line where "f = Exit 2 line" using validate_flags_usage by blast
    with h f show "\<exists>line. main_checks fl parsedAddr = Inl (Exit 2 line)"
      by (simp add: main_checks_def)
  qed
  have "select_transport (fl\<lparr>serverName := name\<rparr>) parsedAddr = select_transport fl parsedAddr"
    by (simp add: select_transport_def Let_def split: option.splits)
  moreover have "\<And>usetls. validate_flags (fl\<lparr>serverName := name\<rparr>) usetls
      = validate_flags fl usetls"
    by (simp add: validate_flags_def)
  ultimately have b: "main_checks (fl\<lparr>serverName := name\<rparr>) parsedAddr
      = main_checks fl parsedAddr"
    by (simp add: main_checks_def split: sum.splits prod.splits)
  have "\<And>t c os. blocking_dial env (fl\<lparr>serverName := name\<rparr>) t c os
      = blocking_dial env fl t c os"
    by (simp add: blocking_dial_def Let_def)
  then have c: "dial env (fl\<lparr>serverName := name\<rparr>) parsedAddr target False forcePlaintext
        = dial env fl parsedAddr target False forcePlaintext"
    by (simp add: dial_def Let_def cong: if_cong split del: if_split)
  show ?thesis using a b c by simp
qed

text \<open>\<^verbatim>\<open>-plaintext -insecure\<close> fails at line 593.\<close>

theorem C7_tls_only_options_witness:
  "select_transport (default_flags\<lparr>plaintext := True, insecure := True\<rparr>) None = Inr (False, True)
   \<and> main_checks (default_flags\<lparr>plaintext := True, insecure := True\<rparr>) None
       = Inl (Exit 2 ''The -insecure argument can only be used with TLS.'')"
  using C7_tls_only_options [of "default_flags\<lparr>plaintext := True, insecure := True\<rparr>" None True]
  by (simp add: default_flags_def select_transport_def main_checks_def validate_flags_def fail_def)

text \<open>
  \<^verbatim>\<open>-plaintext -servername example.com\<close>: the mode is not TLS and the server name override
  is given, yet every check passes and \<^verbatim>\<open>dial\<close> reaches its call of \<^verbatim>\<open>BlockingDial\<close>, in
  plaintext.
\<close>

theorem C7_servername_counterexample:
  "select_transport (default_flags\<lparr>plaintext := True, serverName := ''example.com''\<rparr>) None
     = Inr (False, True)
   \<and> serverName (default_flags\<lparr>plaintext := True, serverName := ''example.com''\<rparr>) \<noteq> []
   \<and> main_checks (default_flags\<lparr>plaintext := True, serverName := ''example.com''\<rparr>) None
     = Inr (False, True)
   \<and> dial example_env (default_flags\<lparr>plaintext := True, serverName := ''example.com''\<rparr>) None
       ''localhost:8080'' False True
     = Inr \<lparr>dialTime = 10, dial_target = ''localhost:8080'', creds = no_creds,
            opts = [WithUserAgent ''grpcurl/dev-build (no version set)'']\<rparr>"
  by (simp add: default_flags_def select_transport_def main_checks_def validate_flags_def
      dial_def blocking_dial_def example_env_def noVersion_def HasPrefix_def)

subsection \<open>dial: the server name of the TLS configuration\<close>

lemma main_checks_tls:
  "main_checks fl pa = Inr (True, fp) \<Longrightarrow> \<not> fp \<and> \<not> usealts fl \<and> \<not> plaintext fl"
  by (auto simp: main_checks_def select_transport_def Let_def
      split: sum.splits option.splits if_splits prod.splits)

lemma parseTarget_wasURL:
  "parseTarget t = Inr p \<Longrightarrow> wasURL p \<Longrightarrow>
     \<exists>u. url_Parse t = Inr u \<and> host p = Hostname u \<and> address p = Hostname u @ '':'' @ port p"
  by (auto simp: parseTarget_def opaque_target_def Let_def split: if_splits sum.splits)

text \<open>
  C10. When the checks of \<^verbatim>\<open>main\<close> pass with \<open>usetls\<close> true and the target is a URL whose
  path is neither empty nor \<open>/\<close>, every call of \<^verbatim>\<open>BlockingDial\<close> that \<^verbatim>\<open>dial\<close> reaches has
  TLS credentials whose server name is the \<open>host\<close> field of the parsed target. With no
  \<^verbatim>\<open>-servername\<close> and no \<^verbatim>\<open>-authority\<close> (and no key log file, and a TLS configuration that
  \<^verbatim>\<open>ClientTLSConfig\<close> could build) \<^verbatim>\<open>dial\<close> does reach that call. The \<open>host\<close> field of a
  target that \<^verbatim>\<open>parseTarget\<close> returned is the URL's host name, and differs from the dial
  address \<open>host:port\<close>.
\<close>

theorem C10_tls_server_name:
  assumes "main_checks fl (Some p) = Inr (True, forcePlaintext)"
    and "wasURL p" and "path p \<noteq> []" and "path p \<noteq> ''/''"
  shows "(\<forall>d. dial env fl (Some p) target True forcePlaintext = Inr d \<longrightarrow>
            (\<exists>conf. creds d = credentials_NewTLS conf \<and> ServerName conf = host p))
    \<and> (serverName fl = [] \<and> authority fl = [] \<and> SSLKEYLOGFILE env = []
         \<and> (\<exists>conf0. ClientTLSConfig env (insecure fl) (cacert fl) (cert fl) (key fl) = Inr conf0)
        \<longrightarrow>
         (\<exists>d conf. dial env fl (Some p) target True forcePlaintext = Inr d
            \<and> creds d = credentials_NewTLS conf \<and> ServerName conf = host p))
    \<and> (\<forall>t. parseTarget t = Inr p \<longrightarrow>
          (\<exists>u. url_Parse t = Inr u \<and> host p = Hostname u)
          \<and> address p = host p @ '':'' @ port p \<and> address p \<noteq> host p)"
proof -
  have m: "\<not> forcePlaintext" "\<not> usealts fl"
    using main_checks_tls [OF assms(1)] by simp_all
  have a: "\<forall>d. dial env fl (Some p) target True forcePlaintext = Inr d \<longrightarrow>
            (\<exists>conf. creds d = credentials_NewTLS conf \<and> ServerName conf = host p)"
    using m assms(2-4)
    by (auto simp: dial_def blocking_dial_def Let_def split: sum.splits option.splits if_splits)
  have b: "serverName fl = [] \<and> authority fl = [] \<and> SSLKEYLOGFILE env = []
         \<and> (\<exists>conf0. ClientTLSConfig env (insecure fl) (cacert fl) (cert fl) (key fl) = Inr conf0)
        \<longrightarrow>
         (\<exists>d conf. dial env fl (Some p) target True forcePlaintext = Inr d
            \<and> creds d = credentials_NewTLS conf \<and> ServerName conf = host p)"
    using m assms(2-4)
    by (auto simp: dial_def blocking_dial_def Let_def)
  have c: "\<forall>t. parseTarget t = Inr p \<longrightarrow>
          (\<exists>u. url_Parse t = Inr u \<and> host p = Hostname u)
          \<and> address p = host p @ '':'' @ port p \<and> address p \<noteq> host p"
  proof (intro allI impI)
    fix t assume "parseTarget t = Inr p"
    then obtain u where u: "url_Parse t = Inr u" "host p = Hostname u"
        "address p = Hostname u @ '':'' @ port p"
      using parseTarget_wasURL assms(2) by blast
    then have "address p = host p @ '':'' @ port p" by simp
    moreover from this have "address p \<noteq> host p" by simp
    ultimately show "(\<exists>u. url_Parse t = Inr u \<and> host p = Hostname u)
        \<and> address p = host p @ '':'' @ port p \<and> address p \<noteq> host p"
      using u by blast
  qed
  show ?thesis using a b c by blast
qed

text \<open>
  \<^verbatim>\<open>https://example.com/svc\<close> with the default flags: the server name is \<open>example.com\<close>,
  the dial address \<open>example.com:443\<close>.
\<close>

theorem C10_tls_server_name_witness:
  "parseTarget ''https://example.com/svc'' =
     Inr \<lparr>address = ''example.com:443'', scheme = ''https'', host = ''example.com'',
          port = ''443'', path = ''/svc'', useTLS = True, wasURL = True\<rparr>
   \<and> main_checks default_flags
       (Some \<lparr>address = ''example.com:443'', scheme = ''https'', host = ''example.com'',
          port = ''443'', path = ''/svc'', useTLS = True, wasURL = True\<rparr>) = Inr (True, False)
   \<and> (\<exists>d conf. dial example_env default_flags
       (Some \<lparr>address = ''example.com:443'', scheme = ''https'', host = ''example.com'',
          port = ''443'', path = ''/svc'', useTLS = True, wasURL = True\<rparr>)
       ''example.com:443'' True False = Inr d
       \<and> creds d = credentials_NewTLS conf \<and> ServerName conf = ''example.com'')"
proof -
  let ?p = "\<lparr>address = ''example.com:443'', scheme = ''https'', host = ''example.com'',
          port = ''443'', path = ''/svc'', useTLS = True, wasURL = True\<rparr>"
  have t: "parseTarget ''https://example.com/svc'' = Inr ?p"
    by code_simp
  have m: "main_checks default_flags (Some ?p) = Inr (True, False)"
    by (simp add: main_checks_def select_transport_def validate_flags_def default_flags_def)
  show ?thesis
    using t m C10_tls_server_name [OF m, of example_env "''example.com:443''"]
    by (simp add: default_flags_def example_env_def)
qed

end
